theory Spec2Isabelle
  imports Main "HOL-Library.Word" "HOL-Library.Char_ord" "HOL-Library.List_Lexorder"
begin

section \<open>Powers: power.h and power.cc\<close>

text \<open>
  Modelled from the spec: the enumeration \<open>Power\<close> of power.h, a header that is not among
  the sources. It has the seven Great Powers and the sentinel \<open>NONE\<close>. The comment
  \<^verbatim>\<open>// -1 for NONE\<close> in \<open>power_str\<close> says that \<open>NONE\<close> is the enumerator 0, so the seven
  powers are numbered 1 to 7 in the order in which the spec and the tables list them.
\<close>

datatype Power = NONE | AUSTRIA | ENGLAND | FRANCE | GERMANY | ITALY | RUSSIA | TURKEY

text \<open>\<open>size_t\<close> is an unsigned 64-bit integer: subtraction wraps around.\<close>

type_synonym size_t = "64 word"

fun static_cast_size_t :: "Power \<Rightarrow> size_t" where
  "static_cast_size_t NONE = 0"
| "static_cast_size_t AUSTRIA = 1"
| "static_cast_size_t ENGLAND = 2"
| "static_cast_size_t FRANCE = 3"
| "static_cast_size_t GERMANY = 4"
| "static_cast_size_t ITALY = 5"
| "static_cast_size_t RUSSIA = 6"
| "static_cast_size_t TURKEY = 7"

text \<open>
  Modelled from the spec: the arrays \<open>POWERS\<close> and \<open>POWERS_STR\<close> of power.h (not among the
  sources): the seven powers and their canonical names, in enumeration order.
\<close>

definition POWERS :: "Power list" where
  "POWERS = [AUSTRIA, ENGLAND, FRANCE, GERMANY, ITALY, RUSSIA, TURKEY]"

definition POWERS_STR :: "string list" where
  "POWERS_STR =
     [''AUSTRIA'', ''ENGLAND'', ''FRANCE'', ''GERMANY'', ''ITALY'', ''RUSSIA'', ''TURKEY'']"

text \<open>
  Modelled from the spec: the failures of the code, as values. The macro \<open>JFAIL\<close> of
  checks.h (not among the sources) aborts the call with its message; the spec calls this
  failure of a power lookup a LookupError. \<open>IllegalStateError\<close> and \<open>ParadoxError\<close> are the
  spec's names for the failures of \<open>process\<close>. \<open>Out_Of_Range\<close> is the \<open>std::out_of_range\<close>
  that the bounds-checked \<open>at\<close> of the standard library throws.
\<close>

datatype error =
    Out_Of_Range
  | JFail string
  | IllegalStateError
  | ParadoxError

text \<open>\<open>v.at(n)\<close>: the element at index \<open>n\<close>, or \<open>std::out_of_range\<close> when \<open>n \<ge> v.size()\<close>.\<close>

definition vector_at :: "'a list \<Rightarrow> size_t \<Rightarrow> error + 'a" where
  "vector_at v n = (if unat n < length v then Inr (v ! unat n) else Inl Out_Of_Range)"

text \<open>The index that \<open>power_str\<close> computes: \<^verbatim>\<open>static_cast<size_t>(power) - 1\<close>.\<close>

definition power_str_index :: "Power \<Rightarrow> size_t" where
  "power_str_index pw = static_cast_size_t pw - 1"

definition power_str :: "Power \<Rightarrow> error + string" where
  "power_str pw = vector_at POWERS_STR (power_str_index pw)"

text \<open>
  The loop of \<open>power_from_str\<close>: \<^verbatim>\<open>for (int i = 0; i < 7; ++i)\<close>, returning \<open>POWERS[i]\<close> at
  the first \<open>i\<close> whose name is \<open>s\<close>, and failing with \<open>JFAIL\<close> after the loop. A failure of
  \<open>power_str\<close> inside the loop would leave the function as an exception.
\<close>

function power_from_str_loop :: "string \<Rightarrow> nat \<Rightarrow> error + Power" where
  "power_from_str_loop s i =
     (if i < 7 then
        (case power_str (POWERS ! i) of
           Inl e \<Rightarrow> Inl e
         | Inr name \<Rightarrow>
             if name = s then Inr (POWERS ! i) else power_from_str_loop s (i + 1))
      else Inl (JFail (''Bad arg to power_from_str: '' @ s)))"
  by pat_completeness auto
termination
  by (relation "measure (\<lambda>(s, i). 7 - i)") auto

definition power_from_str :: "string \<Rightarrow> error + Power" where
  "power_from_str s = power_from_str_loop s 0"

section \<open>The civil-disorder distance tables and the alphabetic index of locations\<close>



text \<open>
  Modelled from the spec: the enumeration \<open>Loc\<close> of loc.h (not among the sources), with
  the 81 identifiers that are the keys of \<open>LOC_ALPHA_IDX\<close>.
\<close>

datatype (plugins only: ) Loc =
    ADR | AEG | ALB | ANK | APU | ARM | BAL | BAR | BEL | BER | BLA | BOH | BOT | BRE |
    BUD | BUL | BUL_EC | BUL_SC | BUR | CLY | CON | DEN | EAS | EDI | ENG | FIN | GAL |
    GAS | GRE | HEL | HOL | ION | IRI | KIE | LON | LVN | LVP | LYO | MAO | MAR | MOS |
    MUN | NAF | NAO | NAP | NTH | NWG | NWY | PAR | PIC | PIE | POR | PRU | ROM | RUH |
    RUM | SER | SEV | SIL | SKA | SMY | SPA | SPA_NC | SPA_SC | STP | STP_NC | STP_SC |
    SWE | SYR | TRI | TUN | TUS | TYR | TYS | UKR | VEN | VIE | WAL | WAR | WES | YOR

text \<open>
  Modelled from the spec: the name of a location is its identifier, a coasted variant being
  written with a slash (\<open>BUL/EC\<close> for \<open>BUL_EC\<close>). These are the strings that the comment
  above \<open>LOC_ALPHA_IDX\<close> sorts.
\<close>

primrec loc_str :: "Loc \<Rightarrow> string" where
  "loc_str ADR = ''ADR''"
| "loc_str AEG = ''AEG''"
| "loc_str ALB = ''ALB''"
| "loc_str ANK = ''ANK''"
| "loc_str APU = ''APU''"
| "loc_str ARM = ''ARM''"
| "loc_str BAL = ''BAL''"
| "loc_str BAR = ''BAR''"
| "loc_str BEL = ''BEL''"
| "loc_str BER = ''BER''"
| "loc_str BLA = ''BLA''"
| "loc_str BOH = ''BOH''"
| "loc_str BOT = ''BOT''"
| "loc_str BRE = ''BRE''"
| "loc_str BUD = ''BUD''"
| "loc_str BUL = ''BUL''"
| "loc_str BUL_EC = ''BUL/EC''"
| "loc_str BUL_SC = ''BUL/SC''"
| "loc_str BUR = ''BUR''"
| "loc_str CLY = ''CLY''"
| "loc_str CON = ''CON''"
| "loc_str DEN = ''DEN''"
| "loc_str EAS = ''EAS''"
| "loc_str EDI = ''EDI''"
| "loc_str ENG = ''ENG''"
| "loc_str FIN = ''FIN''"
| "loc_str GAL = ''GAL''"
| "loc_str GAS = ''GAS''"
| "loc_str GRE = ''GRE''"
| "loc_str HEL = ''HEL''"
| "loc_str HOL = ''HOL''"
| "loc_str ION = ''ION''"
| "loc_str IRI = ''IRI''"
| "loc_str KIE = ''KIE''"
| "loc_str LON = ''LON''"
| "loc_str LVN = ''LVN''"
| "loc_str LVP = ''LVP''"
| "loc_str LYO = ''LYO''"
| "loc_str MAO = ''MAO''"
| "loc_str MAR = ''MAR''"
| "loc_str MOS = ''MOS''"
| "loc_str MUN = ''MUN''"
| "loc_str NAF = ''NAF''"
| "loc_str NAO = ''NAO''"
| "loc_str NAP = ''NAP''"
| "loc_str NTH = ''NTH''"
| "loc_str NWG = ''NWG''"
| "loc_str NWY = ''NWY''"
| "loc_str PAR = ''PAR''"
| "loc_str PIC = ''PIC''"
| "loc_str PIE = ''PIE''"
| "loc_str POR = ''POR''"
| "loc_str PRU = ''PRU''"
| "loc_str ROM = ''ROM''"
| "loc_str RUH = ''RUH''"
| "loc_str RUM = ''RUM''"
| "loc_str SER = ''SER''"
| "loc_str SEV = ''SEV''"
| "loc_str SIL = ''SIL''"
| "loc_str SKA = ''SKA''"
| "loc_str SMY = ''SMY''"
| "loc_str SPA = ''SPA''"
| "loc_str SPA_NC = ''SPA/NC''"
| "loc_str SPA_SC = ''SPA/SC''"
| "loc_str STP = ''STP''"
| "loc_str STP_NC = ''STP/NC''"
| "loc_str STP_SC = ''STP/SC''"
| "loc_str SWE = ''SWE''"
| "loc_str SYR = ''SYR''"
| "loc_str TRI = ''TRI''"
| "loc_str TUN = ''TUN''"
| "loc_str TUS = ''TUS''"
| "loc_str TYR = ''TYR''"
| "loc_str TYS = ''TYS''"
| "loc_str UKR = ''UKR''"
| "loc_str VEN = ''VEN''"
| "loc_str VIE = ''VIE''"
| "loc_str WAL = ''WAL''"
| "loc_str WAR = ''WAR''"
| "loc_str WES = ''WES''"
| "loc_str YOR = ''YOR''"

definition LOC_ALPHA_IDX :: "(Loc \<times> int) list" where
  "LOC_ALPHA_IDX =
     [
      (ADR, 0), (AEG, 1), (ALB, 2), (ANK, 3), (APU, 4), (ARM, 5), (BAL, 6), (BAR, 7),
      (BEL, 8), (BER, 9), (BLA, 10), (BOH, 11), (BOT, 12), (BRE, 13), (BUD, 14), (BUL, 15),
      (BUL_EC, 16), (BUL_SC, 17), (BUR, 18), (CLY, 19), (CON, 20), (DEN, 21), (EAS, 22),
      (EDI, 23), (ENG, 24), (FIN, 25), (GAL, 26), (GAS, 27), (GRE, 28), (HEL, 29),
      (HOL, 30), (ION, 31), (IRI, 32), (KIE, 33), (LON, 34), (LVN, 35), (LVP, 36),
      (LYO, 37), (MAO, 38), (MAR, 39), (MOS, 40), (MUN, 41), (NAF, 42), (NAO, 43),
      (NAP, 44), (NTH, 45), (NWG, 46), (NWY, 47), (PAR, 48), (PIC, 49), (PIE, 50),
      (POR, 51), (PRU, 52), (ROM, 53), (RUH, 54), (RUM, 55), (SER, 56), (SEV, 57),
      (SIL, 58), (SKA, 59), (SMY, 60), (SPA, 61), (SPA_NC, 62), (SPA_SC, 63), (STP, 64),
      (STP_NC, 65), (STP_SC, 66), (SWE, 67), (SYR, 68), (TRI, 69), (TUN, 70), (TUS, 71),
      (TYR, 72), (TYS, 73), (UKR, 74), (VEN, 75), (VIE, 76), (WAL, 77), (WAR, 78),
      (WES, 79), (YOR, 80)]"

subsection \<open>The lookup that the spec describes\<close>





section \<open>The Game object: game.h\<close>

text \<open>
  Modelled from the spec: a message (message.h is not among the sources) has a sender, a
  recipient, a body and the time at which it was sent, an unsigned 64-bit timestamp.
\<close>

record Message =
  sender :: Power
  recipient :: Power
  body :: string
  time_sent :: "64 word"

text \<open>
  The data members of class \<open>Game\<close>, in the order and with the names of game.h, less the
  underscore that ends the private ones (Isabelle keeps such names for itself). The classes
  \<open>GameState\<close>, \<open>Phase\<close> and \<open>Order\<close> come from headers that are not among the sources, so
  they are type parameters. A \<open>shared_ptr<GameState>\<close> is modelled by the state it points
  to, a \<open>std::map\<close> and a \<open>std::unordered_map\<close> by a partial function on their keys.
\<close>

record ('state, 'phase, 'order) Game =
  game_id :: string
  state :: 'state
  staged_orders :: "Power \<rightharpoonup> 'order list"
  state_history :: "'phase \<rightharpoonup> 'state"
  order_history :: "'phase \<rightharpoonup> (Power \<rightharpoonup> 'order list)"
  logs :: "'phase \<rightharpoonup> string list"
  message_history :: "'phase \<rightharpoonup> (64 word \<rightharpoonup> Message)"
  rules :: "string list"
  draw_on_stalemate_years :: int
  exception_on_convoy_paradox :: bool

subsection \<open>Member functions that game.h defines inline\<close>

definition map_name :: "('state, 'phase, 'order) Game \<Rightarrow> string" where
  "map_name g = ''standard''"



subsection \<open>The constructor\<close>

text \<open>
  Modelled from the spec: the body of the constructor \<^verbatim>\<open>Game(int draw_on_stalemate_years = -1)\<close>;
  game.h only declares it, and game.cc is not among the sources. The model stores the
  argument in the member of the same name. Every other member has the value that game.h
  gives it: the default member initializers for \<open>rules\<close> and \<open>exception_on_convoy_paradox\<close>,
  empty maps for the histories and the staged orders. The initial board \<open>init\<close> and the
  generated identifier \<open>gid\<close> are parameters.
\<close>

definition Game_ctor :: "'state \<Rightarrow> string \<Rightarrow> int \<Rightarrow> ('state, 'phase, 'order) Game" where
  "Game_ctor init gid years =
     \<lparr>game_id = gid,
      state = init,
      staged_orders = Map.empty,
      state_history = Map.empty,
      order_history = Map.empty,
      logs = Map.empty,
      message_history = Map.empty,
      rules = [''NO_PRESS'', ''POWER_CHOICE''],
      draw_on_stalemate_years = years,
      exception_on_convoy_paradox = False\<rparr>"

text \<open>\<^verbatim>\<open>Game()\<close>: the call without an argument takes the default argument \<open>-1\<close> of game.h.\<close>

definition Game_default :: "'state \<Rightarrow> string \<Rightarrow> ('state, 'phase, 'order) Game" where
  "Game_default init gid = Game_ctor init gid (- 1)"

subsection \<open>Member functions that game.h only declares\<close>

text \<open>
  What the Game object takes from the classes and functions that are not among the
  sources: the phase of a state, the test for a finished game (\<open>is_game_done\<close>, whose
  body is in game.cc), the solver that computes the next state from the staged orders
  and the paradox flag or fails, the parser that turns an order string of a power into
  an order, and the rule by which the messages of a phase take a new one.
\<close>

record ('state, 'phase, 'order) engine =
  get_phase :: "'state \<Rightarrow> 'phase"
  is_game_done :: "('state, 'phase, 'order) Game \<Rightarrow> bool"
  solve :: "'state \<Rightarrow> (Power \<rightharpoonup> 'order list) \<Rightarrow> bool \<Rightarrow> error + 'state"
  parse_order :: "'state \<Rightarrow> Power \<Rightarrow> string \<Rightarrow> 'order"
  insert_message :: "(64 word \<rightharpoonup> Message) \<Rightarrow> Message \<Rightarrow> (64 word \<rightharpoonup> Message)"

text \<open>
  A member function that can throw returns the exception, if any, together with the Game
  as the call leaves it.
\<close>

type_synonym ('state, 'phase, 'order) outcome = "error option \<times> ('state, 'phase, 'order) Game"


text \<open>
  Modelled from the spec: \<open>process\<close> (game.cc is not among the sources). It refuses a
  finished game with an IllegalStateError. Otherwise it runs the solver; a failure of the
  solver leaves the Game in its state before the call. On success the current state and
  the staged orders are archived under the current phase, the state becomes the one the
  solver returned, and the staged orders are cleared.
\<close>

definition process ::
    "('state, 'phase, 'order) engine \<Rightarrow> ('state, 'phase, 'order) Game \<Rightarrow>
     ('state, 'phase, 'order) outcome" where
  "process E g =
     (if is_game_done E g then (Some IllegalStateError, g)
      else
        (case solve E (state g) (staged_orders g) (exception_on_convoy_paradox g) of
           Inl e \<Rightarrow> (Some e, g)
         | Inr next_state \<Rightarrow>
             (None,
              g\<lparr>state_history := (state_history g)(get_phase E (state g) \<mapsto> state g),
                order_history :=
                  (order_history g)(get_phase E (state g) \<mapsto> staged_orders g),
                state := next_state,
                staged_orders := Map.empty\<rparr>)))"





subsection \<open>The public interface as steps of a Game\<close>




subsection \<open>A small engine\<close>

text \<open>
  An instance of the parameters on which the theorems below can be run. A state is a
  counter of phases and is its own phase; the solver moves on to the next one; a game is
  finished when the counter has reached 18; an order is its string; a message is stored
  under its timestamp.
\<close>

definition example_engine :: "(nat, nat, string) engine" where
  "example_engine =
     \<lparr>get_phase = (\<lambda>s. s),
      is_game_done = (\<lambda>g. 18 \<le> state g),
      solve = (\<lambda>s orders paradox. Inr (Suc s)),
      parse_order = (\<lambda>s p text. text),
      insert_message = (\<lambda>m msg. m(time_sent msg \<mapsto> msg))\<rparr>"

section \<open>Properties of the power names\<close>

lemma unat_size_t_minus_one: "unat (- 1 :: size_t) = 18446744073709551615"
  by (simp add: unsigned_minus_1_eq_mask mask_eq_exp_minus_1)

lemma power_str_index_simps:
  "power_str_index NONE = - 1"
  "power_str_index AUSTRIA = 0"
  "power_str_index ENGLAND = 1"
  "power_str_index FRANCE = 2"
  "power_str_index GERMANY = 3"
  "power_str_index ITALY = 4"
  "power_str_index RUSSIA = 5"
  "power_str_index TURKEY = 6"
  by (simp_all add: power_str_index_def)

lemma power_str_simps:
  "power_str NONE = Inl Out_Of_Range"
  "power_str AUSTRIA = Inr ''AUSTRIA''"
  "power_str ENGLAND = Inr ''ENGLAND''"
  "power_str FRANCE = Inr ''FRANCE''"
  "power_str GERMANY = Inr ''GERMANY''"
  "power_str ITALY = Inr ''ITALY''"
  "power_str RUSSIA = Inr ''RUSSIA''"
  "power_str TURKEY = Inr ''TURKEY''"
  by (simp_all add: power_str_def power_str_index_simps vector_at_def POWERS_STR_def
      unat_size_t_minus_one)

lemma power_from_str_unfold:
  "power_from_str s =
     (if s = ''AUSTRIA'' then Inr AUSTRIA
      else if s = ''ENGLAND'' then Inr ENGLAND
      else if s = ''FRANCE'' then Inr FRANCE
      else if s = ''GERMANY'' then Inr GERMANY
      else if s = ''ITALY'' then Inr ITALY
      else if s = ''RUSSIA'' then Inr RUSSIA
      else if s = ''TURKEY'' then Inr TURKEY
      else Inl (JFail (''Bad arg to power_from_str: '' @ s)))"
  by (simp add: power_from_str_def POWERS_def power_str_simps eq_commute [of _ s])

lemma power_name_cases:
  assumes "s \<in> set POWERS_STR"
  shows "\<exists>p. p \<noteq> NONE \<and> power_str p = Inr s \<and> power_from_str s = Inr p"
proof -
  from assms have "s = ''AUSTRIA'' \<or> s = ''ENGLAND'' \<or> s = ''FRANCE'' \<or> s = ''GERMANY'' \<or>
      s = ''ITALY'' \<or> s = ''RUSSIA'' \<or> s = ''TURKEY''"
    by (simp add: POWERS_STR_def)
  then show ?thesis
  proof (elim disjE)
    assume "s = ''AUSTRIA''"
    then show ?thesis
      by (intro exI [of _ AUSTRIA]) (simp add: power_str_simps power_from_str_unfold)
  next
    assume "s = ''ENGLAND''"
    then show ?thesis
      by (intro exI [of _ ENGLAND]) (simp add: power_str_simps power_from_str_unfold)
  next
    assume "s = ''FRANCE''"
    then show ?thesis
      by (intro exI [of _ FRANCE]) (simp add: power_str_simps power_from_str_unfold)
  next
    assume "s = ''GERMANY''"
    then show ?thesis
      by (intro exI [of _ GERMANY]) (simp add: power_str_simps power_from_str_unfold)
  next
    assume "s = ''ITALY''"
    then show ?thesis
      by (intro exI [of _ ITALY]) (simp add: power_str_simps power_from_str_unfold)
  next
    assume "s = ''RUSSIA''"
    then show ?thesis
      by (intro exI [of _ RUSSIA]) (simp add: power_str_simps power_from_str_unfold)
  next
    assume "s = ''TURKEY''"
    then show ?thesis
      by (intro exI [of _ TURKEY]) (simp add: power_str_simps power_from_str_unfold)
  qed
qed

text \<open>
  C6: \<open>power_from_str s\<close> returns the corresponding power when \<open>s\<close> is one of the seven
  canonical names, the entries of \<open>POWERS_STR\<close>, and for every other string it aborts with
  the failure of \<open>JFAIL\<close> and returns no power. The third part says that the power returned
  is the one whose name \<open>power_str\<close> gives as \<open>s\<close>.
\<close>

theorem power_from_str_total_spec:
  "(s \<in> set POWERS_STR \<longrightarrow>
      (\<exists>p. p \<noteq> NONE \<and> power_str p = Inr s \<and> power_from_str s = Inr p)) \<and>
   (s \<notin> set POWERS_STR \<longrightarrow>
      power_from_str s = Inl (JFail (''Bad arg to power_from_str: '' @ s))) \<and>
   (\<forall>p. power_str p = Inr s \<longrightarrow> power_from_str s = Inr p)"
proof (intro conjI allI impI)
  assume "s \<in> set POWERS_STR"
  then show "\<exists>p. p \<noteq> NONE \<and> power_str p = Inr s \<and> power_from_str s = Inr p"
    by (rule power_name_cases)
next
  assume "s \<notin> set POWERS_STR"
  then show "power_from_str s = Inl (JFail (''Bad arg to power_from_str: '' @ s))"
    by (simp add: POWERS_STR_def power_from_str_unfold)
next
  fix p assume "power_str p = Inr s"
  then show "power_from_str s = Inr p"
    by (cases p) (auto simp add: power_str_simps power_from_str_unfold)
qed

text \<open>The two cases of C6 at \<open>ITALY\<close>, a canonical name, and \<open>italy\<close>, which is none.\<close>

theorem power_from_str_total_spec_witness:
  "''ITALY'' \<in> set POWERS_STR \<and> power_from_str ''ITALY'' = Inr ITALY \<and>
   ''italy'' \<notin> set POWERS_STR \<and>
   power_from_str ''italy'' = Inl (JFail ''Bad arg to power_from_str: italy'')"
proof -
  have name: "power_str ITALY = Inr ''ITALY''"
    by (simp add: power_str_simps)
  have known: "''ITALY'' \<in> set POWERS_STR" and other: "''italy'' \<notin> set POWERS_STR"
    by (simp_all add: POWERS_STR_def)
  from power_from_str_total_spec [of "''ITALY''"] name
  have "power_from_str ''ITALY'' = Inr ITALY" by blast
  moreover from power_from_str_total_spec [of "''italy''"] other
  have "power_from_str ''italy'' = Inl (JFail ''Bad arg to power_from_str: italy'')" by simp
  ultimately show ?thesis using known other by simp
qed

text \<open>
  C8: for each of the seven Great Powers, \<open>power_str\<close> returns a name and
  \<open>power_from_str\<close> of that name is the power again.
\<close>

theorem power_from_str_power_str:
  "pw \<noteq> NONE \<Longrightarrow> \<exists>name. power_str pw = Inr name \<and> power_from_str name = Inr pw"
  by (cases pw) (simp_all add: power_str_simps power_from_str_unfold)

text \<open>C8 at \<open>RUSSIA\<close>.\<close>

theorem power_from_str_power_str_witness:
  "RUSSIA \<noteq> NONE \<and> (\<exists>name. power_str RUSSIA = Inr name \<and> power_from_str name = Inr RUSSIA)"
  using power_from_str_power_str [of RUSSIA] by simp

text \<open>
  C9: for each of the seven Great Powers the index \<^verbatim>\<open>static_cast<size_t>(power) - 1\<close> is within
  the bounds of \<open>POWERS_STR\<close> and \<open>power_str\<close> returns the entry at that index; for \<open>NONE\<close>
  the subtraction wraps around to \<open>2 ^ 64 - 1\<close>, which is past the table, and the
  bounds-checked lookup fails.
\<close>

theorem power_str_defined_on_real_powers:
  "(pw \<noteq> NONE \<longrightarrow>
      unat (power_str_index pw) < length POWERS_STR \<and>
      power_str pw = Inr (POWERS_STR ! unat (power_str_index pw))) \<and>
   unat (power_str_index NONE) = 2 ^ 64 - 1 \<and>
   \<not> unat (power_str_index NONE) < length POWERS_STR \<and>
   power_str NONE = Inl Out_Of_Range"
  by (cases pw)
    (simp_all add: power_str_simps power_str_index_simps unat_size_t_minus_one POWERS_STR_def)

text \<open>C9 at \<open>FRANCE\<close>.\<close>

theorem power_str_defined_on_real_powers_witness:
  "FRANCE \<noteq> NONE \<and> unat (power_str_index FRANCE) < length POWERS_STR \<and>
   power_str FRANCE = Inr ''FRANCE''"
  using power_str_defined_on_real_powers [of FRANCE]
  by (simp add: power_str_index_simps POWERS_STR_def)

section \<open>Properties of the tables\<close>

subsection \<open>Association lists\<close>



lemma map_of_nth:
  assumes "map_of xs k = Some v"
  shows "\<exists>n < length xs. xs ! n = (k, v)"
  using map_of_SomeD [OF assms] by (simp add: in_set_conv_nth)

text \<open>
  In a list of pairs whose keys (under a measure \<open>f\<close>) and whose values both increase
  strictly along the list, one value is below another exactly when its key is.
\<close>

lemma map_of_strict_mono:
  fixes f :: "'k \<Rightarrow> 'n::linorder" and xs :: "('k \<times> 'i::linorder) list"
  assumes keys: "sorted_wrt (<) (map (f \<circ> fst) xs)"
    and vals: "sorted_wrt (<) (map snd xs)"
    and a: "map_of xs a = Some i" and b: "map_of xs b = Some j"
  shows "i < j \<longleftrightarrow> f a < f b"
proof -
  from map_of_nth [OF a] obtain m where m: "m < length xs" "xs ! m = (a, i)" by blast
  from map_of_nth [OF b] obtain n where n: "n < length xs" "xs ! n = (b, j)" by blast
  have key_less: "f (fst (xs ! p)) < f (fst (xs ! q))" if "p < q" "q < length xs" for p q
    using sorted_wrt_nth_less [OF keys, of p q] that by simp
  have val_less: "snd (xs ! p) < snd (xs ! q)" if "p < q" "q < length xs" for p q
    using sorted_wrt_nth_less [OF vals, of p q] that by simp
  consider "m < n" | "m = n" | "n < m" by linarith
  then show ?thesis
  proof cases
    case 1
    with key_less [of m n] val_less [of m n] m n have "i < j" "f a < f b" by simp_all
    then show ?thesis by simp
  next
    case 2
    with m n show ?thesis by simp
  next
    case 3
    with key_less [of n m] val_less [of n m] m n have "j < i" "f b < f a" by simp_all
    then show ?thesis using less_not_sym [of j i] less_not_sym [of "f b" "f a"] by simp
  qed
qed

lemma map_of_the:
  assumes "distinct (map fst xs)" and "(k, v) \<in> set xs"
  shows "the (map_of xs k) = v"
  using assms by simp

lemma map_of_bij_betw:
  assumes keys: "distinct (map fst xs)" and vals: "distinct (map snd xs)"
  shows "bij_betw (\<lambda>k. the (map_of xs k)) (fst ` set xs) (snd ` set xs)"
  unfolding bij_betw_def
proof
  from vals have inj: "inj_on snd (set xs)" by (simp add: distinct_map)
  show "inj_on (\<lambda>k. the (map_of xs k)) (fst ` set xs)"
  proof (rule inj_onI)
    fix a b
    assume a: "a \<in> fst ` set xs" and b: "b \<in> fst ` set xs"
      and same: "the (map_of xs a) = the (map_of xs b)"
    from a obtain p where p: "p \<in> set xs" "a = fst p" by (rule imageE)
    from b obtain q where q: "q \<in> set xs" "b = fst q" by (rule imageE)
    from p have "(a, snd p) \<in> set xs" by simp
    then have pa: "the (map_of xs a) = snd p" by (rule map_of_the [OF keys])
    from q have "(b, snd q) \<in> set xs" by simp
    then have qb: "the (map_of xs b) = snd q" by (rule map_of_the [OF keys])
    from same pa qb have "snd p = snd q" by simp
    with inj have "p = q" using p(1) q(1) by (rule inj_onD)
    with p(2) q(2) show "a = b" by simp
  qed
next
  show "(\<lambda>k. the (map_of xs k)) ` fst ` set xs = snd ` set xs"
  proof (intro equalityI subsetI)
    fix i assume "i \<in> (\<lambda>k. the (map_of xs k)) ` fst ` set xs"
    then obtain p where p: "p \<in> set xs" "i = the (map_of xs (fst p))" by blast
    from p(1) have "(fst p, snd p) \<in> set xs" by simp
    then have "the (map_of xs (fst p)) = snd p" by (rule map_of_the [OF keys])
    with p show "i \<in> snd ` set xs" by simp
  next
    fix i assume "i \<in> snd ` set xs"
    then obtain p where p: "p \<in> set xs" "i = snd p" by (rule imageE)
    from p(1) have "(fst p, snd p) \<in> set xs" by simp
    then have "the (map_of xs (fst p)) = snd p" by (rule map_of_the [OF keys])
    with p have "i = the (map_of xs (fst p))" by simp
    moreover from p(1) have "fst p \<in> fst ` set xs" by (rule imageI)
    ultimately show "i \<in> (\<lambda>k. the (map_of xs k)) ` fst ` set xs" by (rule image_eqI)
  qed
qed

subsection \<open>The alphabetic index of locations\<close>

lemma LOC_ALPHA_IDX_names:
  "map (loc_str \<circ> fst) LOC_ALPHA_IDX =
     [
      ''ADR'', ''AEG'', ''ALB'', ''ANK'', ''APU'', ''ARM'', ''BAL'', ''BAR'', ''BEL'',
      ''BER'', ''BLA'', ''BOH'', ''BOT'', ''BRE'', ''BUD'', ''BUL'', ''BUL/EC'',
      ''BUL/SC'', ''BUR'', ''CLY'', ''CON'', ''DEN'', ''EAS'', ''EDI'', ''ENG'', ''FIN'',
      ''GAL'', ''GAS'', ''GRE'', ''HEL'', ''HOL'', ''ION'', ''IRI'', ''KIE'', ''LON'',
      ''LVN'', ''LVP'', ''LYO'', ''MAO'', ''MAR'', ''MOS'', ''MUN'', ''NAF'', ''NAO'',
      ''NAP'', ''NTH'', ''NWG'', ''NWY'', ''PAR'', ''PIC'', ''PIE'', ''POR'', ''PRU'',
      ''ROM'', ''RUH'', ''RUM'', ''SER'', ''SEV'', ''SIL'', ''SKA'', ''SMY'', ''SPA'',
      ''SPA/NC'', ''SPA/SC'', ''STP'', ''STP/NC'', ''STP/SC'', ''SWE'', ''SYR'', ''TRI'',
      ''TUN'', ''TUS'', ''TYR'', ''TYS'', ''UKR'', ''VEN'', ''VIE'', ''WAL'', ''WAR'',
      ''WES'', ''YOR'']"
  by (simp add: LOC_ALPHA_IDX_def)

lemma LOC_ALPHA_IDX_values: "map snd LOC_ALPHA_IDX = map int [0..<81]"
  by (simp add: LOC_ALPHA_IDX_def upt_rec)

lemma LOC_ALPHA_IDX_names_sorted: "sorted_wrt (<) (map (loc_str \<circ> fst) LOC_ALPHA_IDX)"
  unfolding LOC_ALPHA_IDX_names by code_simp

lemma LOC_ALPHA_IDX_values_sorted: "sorted_wrt (<) (map snd LOC_ALPHA_IDX)"
  unfolding LOC_ALPHA_IDX_values by (simp add: sorted_wrt_map)

lemma LOC_ALPHA_IDX_distinct_values: "distinct (map snd LOC_ALPHA_IDX)"
  using LOC_ALPHA_IDX_values_sorted by (simp only: strict_sorted_iff)

lemma LOC_ALPHA_IDX_distinct_keys: "distinct (map fst LOC_ALPHA_IDX)"
proof -
  have "distinct (map loc_str (map fst LOC_ALPHA_IDX))"
    using LOC_ALPHA_IDX_names_sorted by (simp only: strict_sorted_iff map_map)
  then show ?thesis by (simp only: distinct_map)
qed

lemma LOC_ALPHA_IDX_range: "snd ` set LOC_ALPHA_IDX = {0..80}"
proof -
  have "snd ` set LOC_ALPHA_IDX = set (map snd LOC_ALPHA_IDX)" by simp
  also have "\<dots> = int ` {0..<81}" unfolding LOC_ALPHA_IDX_values by simp
  also have "\<dots> = {0..<81}" by (simp add: image_int_atLeastLessThan)
  also have "\<dots> = {0..80::int}" by (rule set_eqI) (simp, arith)
  finally show ?thesis .
qed

lemma LOC_ALPHA_IDX_length: "length LOC_ALPHA_IDX = 81"
proof -
  have "length LOC_ALPHA_IDX = length (map snd LOC_ALPHA_IDX)" by simp
  also have "\<dots> = 81" unfolding LOC_ALPHA_IDX_values by simp
  finally show ?thesis .
qed

lemma LOC_ALPHA_IDX_coasts:
  "{BUL_EC, BUL_SC, SPA_NC, SPA_SC, STP_NC, STP_SC} \<subseteq> fst ` set LOC_ALPHA_IDX"
  by (simp add: LOC_ALPHA_IDX_def)

text \<open>
  C4: \<open>LOC_ALPHA_IDX\<close> has exactly 81 entries with 81 different keys; its values are
  0, 1, ..., 80 in the order of the list, so the lookup is a bijection from the keys onto
  the indices 0 to 80; the six coasted variants are among the keys; and the indices follow
  the alphabetical order of the names: the list is sorted strictly by name, and for two
  locations the index of one is below the index of the other exactly when its name is.
  Names are compared as strings of bytes.
\<close>

theorem LOC_ALPHA_IDX_canonical:
  "length LOC_ALPHA_IDX = 81 \<and>
   distinct (map fst LOC_ALPHA_IDX) \<and>
   map snd LOC_ALPHA_IDX = map int [0..<81] \<and>
   bij_betw (\<lambda>l. the (map_of LOC_ALPHA_IDX l)) (fst ` set LOC_ALPHA_IDX) {0..80} \<and>
   {BUL_EC, BUL_SC, SPA_NC, SPA_SC, STP_NC, STP_SC} \<subseteq> fst ` set LOC_ALPHA_IDX \<and>
   sorted_wrt (<) (map (loc_str \<circ> fst) LOC_ALPHA_IDX) \<and>
   (\<forall>a b i j. map_of LOC_ALPHA_IDX a = Some i \<longrightarrow> map_of LOC_ALPHA_IDX b = Some j \<longrightarrow>
      (i < j \<longleftrightarrow> loc_str a < loc_str b))"
proof -
  have bij: "bij_betw (\<lambda>l. the (map_of LOC_ALPHA_IDX l)) (fst ` set LOC_ALPHA_IDX) {0..80}"
    using map_of_bij_betw [OF LOC_ALPHA_IDX_distinct_keys LOC_ALPHA_IDX_distinct_values]
    by (simp only: LOC_ALPHA_IDX_range)
  have mono: "i < j \<longleftrightarrow> loc_str a < loc_str b"
    if "map_of LOC_ALPHA_IDX a = Some i" "map_of LOC_ALPHA_IDX b = Some j" for a b i j
    using LOC_ALPHA_IDX_names_sorted LOC_ALPHA_IDX_values_sorted that
    by (rule map_of_strict_mono)
  from LOC_ALPHA_IDX_length LOC_ALPHA_IDX_distinct_keys LOC_ALPHA_IDX_values bij
    LOC_ALPHA_IDX_coasts LOC_ALPHA_IDX_names_sorted mono
  show ?thesis by blast
qed

text \<open>C4 at \<open>SPA\<close> and its north coast, indices 61 and 62.\<close>

theorem LOC_ALPHA_IDX_canonical_witness:
  "map_of LOC_ALPHA_IDX SPA = Some 61 \<and> map_of LOC_ALPHA_IDX SPA_NC = Some 62 \<and>
   loc_str SPA < loc_str SPA_NC"
proof -
  have look: "map_of LOC_ALPHA_IDX SPA = Some 61" "map_of LOC_ALPHA_IDX SPA_NC = Some 62"
    by (simp_all add: LOC_ALPHA_IDX_def)
  from LOC_ALPHA_IDX_canonical look have "(61 :: int) < 62 \<longleftrightarrow> loc_str SPA < loc_str SPA_NC"
    by blast
  with look show ?thesis by simp
qed

subsection \<open>The civil-disorder tables\<close>











section \<open>Properties of the Game object\<close>

text \<open>C7: \<open>map_name\<close> returns the string \<open>standard\<close> for every Game, whatever its state.\<close>

theorem map_name_standard: "map_name g = ''standard''"
  by (simp add: map_name_def)

text \<open>
  C5: a Game constructed without an argument has \<open>draw_on_stalemate_years\<close> equal to \<open>-1\<close>
  and \<open>exception_on_convoy_paradox\<close> false; a Game constructed with an explicit argument
  stores that value, and its paradox flag is false as well.
\<close>

theorem Game_constructor_configuration:
  "draw_on_stalemate_years (Game_default init gid) = - 1 \<and>
   \<not> exception_on_convoy_paradox (Game_default init gid) \<and>
   draw_on_stalemate_years (Game_ctor init gid years) = years \<and>
   \<not> exception_on_convoy_paradox (Game_ctor init gid years)"
  by (simp add: Game_default_def Game_ctor_def)

text \<open>
  C2: on a Game for which \<open>is_game_done\<close> holds, \<open>process\<close> raises an IllegalStateError
  and leaves the Game as it was: the current state and its phase, the two histories and
  the staged orders are unchanged.
\<close>

theorem process_refuses_finished_game:
  assumes "is_game_done E g"
  shows "process E g = (Some IllegalStateError, g) \<and>
         state (snd (process E g)) = state g \<and>
         get_phase E (state (snd (process E g))) = get_phase E (state g) \<and>
         state_history (snd (process E g)) = state_history g \<and>
         order_history (snd (process E g)) = order_history g \<and>
         staged_orders (snd (process E g)) = staged_orders g"
  using assms by (simp add: process_def)

text \<open>C2 on a game of the small engine that has reached its last phase.\<close>

theorem process_refuses_finished_game_witness:
  "is_game_done example_engine (Game_default 18 ''g'') \<and>
   process example_engine (Game_default 18 ''g'') = (Some IllegalStateError, Game_default 18 ''g'')"
proof -
  have fin: "is_game_done example_engine (Game_default 18 ''g'')"
    by (simp add: example_engine_def Game_default_def Game_ctor_def)
  from process_refuses_finished_game [OF fin] fin show ?thesis by simp
qed





end
